theory Spec2Isabelle
  imports Complex_Main "HOL-Library.Sublist" "HOL-Library.List_Lexorder" "HOL-Library.Char_ord"
begin

section \<open>Values, errors and external collaborators\<close>

text \<open>
  The development embeds \<^verbatim>\<open>src/gen_story.py\<close>: the class \<^verbatim>\<open>StoryGenerator\<close> with its
  constructor, \<^verbatim>\<open>story_instructions\<close>, \<^verbatim>\<open>set_context\<close>, \<^verbatim>\<open>set_image_context\<close> and
  \<^verbatim>\<open>generate_response\<close>. Attributes of the Python object that are assigned only by some
  methods are optional fields of a record (\<open>None\<close>: the attribute does not exist yet, and
  reading it raises \<^verbatim>\<open>AttributeError\<close>). Every raise is a value \<open>Inl e\<close>; the object
  keeps the assignments made before the raise, so each method returns the outcome
  together with the new state. The attributes \<^verbatim>\<open>context\<close> and \<^verbatim>\<open>image\<close> are the
  fields \<open>context'\<close> and \<open>image'\<close>.
\<close>

text \<open>A Python value of type \<^verbatim>\<open>Optional[str]\<close>.\<close>

datatype pyopt = PyNone | PyStr string

text \<open>Truthiness as tested by \<^verbatim>\<open>if topic:\<close>: \<^verbatim>\<open>None\<close> and the empty string are false.\<close>

fun truthy :: "pyopt \<Rightarrow> bool" where
  "truthy PyNone = False"
| "truthy (PyStr s) = (s \<noteq> [])"

text \<open>\<^verbatim>\<open>str(v)\<close>, as applied by string formatting to a substituted value.\<close>

fun py_str :: "pyopt \<Rightarrow> string" where
  "py_str PyNone = ''None''"
| "py_str (PyStr s) = s"

text \<open>
  The exceptions that can leave the methods. \<open>ServiceError\<close> stands for whatever a
  hosted model call raises and \<open>OSError\<close> for a failure to read the template file;
  \<open>OutputParserException\<close> is raised by the JSON output parser and carries the text it
  could not parse. \<open>UnsupportedField\<close> marks a replacement field (one with a conversion,
  a format specification, attribute or index access, a bracket, or a positional name)
  that the formatter model below does not cover: the template is refused, whatever the
  prompt library does with such a field. \<open>PreconditionError\<close> and
  \<open>MalformedResponseError\<close> are the error kinds named by the specification; no
  statement of the source raises them, and they are here so that this can be said.
\<close>

datatype error =
    AttributeError string
  | OSError string
  | ValueError
  | KeyError string
  | UnsupportedField string
  | ServiceError string
  | OutputParserException string
  | PreconditionError string
  | MalformedResponseError string

text \<open>A parsed JSON value, as returned by the output parser.\<close>

datatype json =
    JNull
  | JBool bool
  | JInt int
  | JFloat real
  | JStr string
  | JArr "json list"
  | JObj "(string \<times> json) list"

section \<open>Decimal rendering of integers\<close>

text \<open>\<^verbatim>\<open>str(n)\<close> for a Python \<^verbatim>\<open>int\<close>, as produced by an f-string interpolation.\<close>

definition digit_char :: "nat \<Rightarrow> char" where
  "digit_char d = ''0123456789'' ! d"

function str_nat :: "nat \<Rightarrow> string" where
  "str_nat n = (if n < 10 then [digit_char n] else str_nat (n div 10) @ [digit_char (n mod 10)])"
  by pat_completeness auto
termination
  by (relation "measure id") auto

declare str_nat.simps [simp del]

definition str_int :: "int \<Rightarrow> string" where
  "str_int i = (if i < 0 then CHR ''-'' # str_nat (nat (- i)) else str_nat (nat i))"

text \<open>
  Reading a decimal numeral back, as \<^verbatim>\<open>int(s)\<close> does for a string of digits: the means
  to say that \<open>str_int\<close> writes the number it is given.
\<close>

definition digit_value :: "char \<Rightarrow> nat option" where
  "digit_value c = map_of (zip ''0123456789'' [0..<10]) c"

fun decimal_digits :: "nat \<Rightarrow> string \<Rightarrow> nat option" where
  "decimal_digits acc [] = Some acc"
| "decimal_digits acc (c # cs) =
     (case digit_value c of None \<Rightarrow> None | Some d \<Rightarrow> decimal_digits (10 * acc + d) cs)"

definition decimal_value :: "string \<Rightarrow> nat option" where
  "decimal_value s = (if s = [] then None else decimal_digits 0 s)"

section \<open>The instruction block\<close>

text \<open>
  The f-string of \<^verbatim>\<open>story_instructions\<close>, one literal per source line. The fixed
  stretches are constants; each line with an interpolation is a function of the
  interpolated values.
\<close>

definition instructions_preamble :: string where
  \<open>instructions_preamble =
     ''\<newline>'' @
     ''            You are an expert storyteller and visual content creator. Your task is to generate a compelling and visually engaging story based on provided context. The output should be structured for easy integration into a web application.\<newline>'' @
     ''\<newline>'' @
     ''            **STORY GENERATION:**\<newline>'' @
     ''\<newline>''\<close>

definition instructions_image_rules :: string where
  \<open>instructions_image_rules =
     ''            5.  **Title:** Create a concise and engaging title for the story.\<newline>'' @
     ''            6.  **Introduction:** Craft a brief introduction (50-60 words) that sets the scene, introduces the main idea, and piques the reader's interest.\<newline>'' @
     ''            7.  ""Theme:** Create a small description about the theme of the story, this should contain small context, what colors, style will suit to show this story over the web, this will be used to ask a theme generator to generator colors, font-colors, styles for the web page where story will be posted\<newline>'' @
     ''\<newline>'' @
     ''            **IMAGE PROMPT GENERATION (For Each Story Part):**\<newline>'' @
     ''\<newline>'' @
     ''            1.  **Purpose:** Generate a distinct, concise, and clear image prompt for each story part. These prompts will be used by a separate image generation model.\<newline>'' @
     ''            2.  **Context Alignment:** Ensure each image prompt aligns directly with the content of its respective story part.\<newline>'' @
     ''            3.  **Visual Style:** The generated images should:\<newline>'' @
     ''                *   Have a light and predominantly white background to accommodate text overlay.\<newline>''\<close>

definition instructions_style_rules :: string where
  \<open>instructions_style_rules =
     ''                *   Image prompt should clearly mention the color palletes to be used to generate the image, so that following image should have same contrast, colors and backgrounds\<newline>'' @
     ''            4.  **Prompt Clarity:** The image prompts must be concise, focusing on key visual elements, and avoid unnecessary detail.\<newline>'' @
     ''            5.  **Prompt Safety:** Prompt should follow the responsible AI guidelines and Do not include anything related to child, sexual orientation, realted to any race, image prompt should be \<newline>'' @
     ''                appropriate to the general audience without hurting any sentiments\<newline>'' @
     ''            6.  **Characters:** If prompt includes to generate any character, person, imaginary figure, then add details of those so that other similar\<newline>'' @
     ''                prompts of the story parts images should have same characters/persons/imaginary figures in the images.\<newline>'' @
     ''\<newline>'' @
     ''            **HTML STYLE GUIDE:**\<newline>'' @
     ''\<newline>'' @
     ''            1.  **Purpose:** Define a cohesive and aesthetically pleasing style guide for the HTML formatting of the story. This will include the background color, font color, and font family.\<newline>'' @
     ''            2.  **Context Matching:** The style guide must complement the story theme, image styles, and be visually appealing to the target audience. Aim for a smooth, comfortable reading experience that enhances engagement.\<newline>'' @
     ''            3.  **Specific Attributes:** The style guide will include:\<newline>'' @
     ''                *   `background-color`: a background color suitable for the story's theme and image aesthetic.\<newline>'' @
     ''                *   `font-color`: a font color that provides sufficient contrast against the background, ensuring easy readability.\<newline>'' @
     ''                *   `font-family`:  a readable font family that fits the overall tone and style of the story and image theme.\<newline>'' @
     ''\<newline>''\<close>

definition instructions_output_format :: string where
  \<open>instructions_output_format =
     ''            **OUTPUT FORMAT (JSON):**\<newline>'' @
     ''\<newline>'' @
     ''            1.  **Structure:** The output MUST be in JSON format.\<newline>'' @
     ''            2.  **Top-Level Keys:** The JSON object must contain the following top-level keys: `style`, `title`, `introduction`, and `story`.\<newline>'' @
     ''                *   `style`: should contain the HTML style parameters which will be passed to HTML component\<newline>'' @
     ''                    * `background-color`: color to be used as background color for html\<newline>'' @
     ''                    * `font-color`: color to be used as font color for the story text\<newline>'' @
     ''                    * `font-family`: which font will be best suited for the story\<newline>'' @
     ''                *   `title`: The generated title of the story.\<newline>'' @
     ''                *   `introduction`: The short introduction to the story.\<newline>'' @
     ''                *   `theme`: The style guide theme for the story to be used for css styling\<newline>'' @
     ''                *   `story`:  A nested JSON object that contains each story part.\<newline>'' @
     ''            3.  **Story Parts:** The `story` object will be a nested structure where each key represents a story part number (e.g., `part_1`, `part_2`, etc.).\<newline>'' @
     ''            4.  **Part Contents:** Each story part (e.g., `part_1`, `part_2`, etc.) will be a nested JSON object with the following keys:\<newline>'' @
     ''                *   `story`: The generated content of that particular story part.\<newline>'' @
     ''                *   `image_prompt`: The image prompt for that specific story part.\<newline>'' @
     ''\<newline>''\<close>

definition instructions_example :: string where
  \<open>instructions_example =
     ''            **Example JSON structure:**\<newline>'' @
     ''\<newline>'' @
     ''            ```json\<newline>'' @
     ''                "style": \<newline>'' @
     ''                    "background-color": "#f0f8ff",\<newline>'' @
     ''                    "font-color": "#333",\<newline>'' @
     ''                    "font-family": "Arial, sans-serif"\<newline>'' @
     ''                ,\<newline>'' @
     ''                "title": "The Magical Treehouse Adventure",\<newline>'' @
     ''                "introduction": "Lily and Tom discover a hidden treehouse in their backyard, leading them on an amazing adventure through enchanted lands and whimsical creatures.",\<newline>'' @
     ''                "theme": "Story is of 2 friends about there adventures, styles which will suit for sharing this story will be vibrant, showing high contrast of colors, color pallete which will suit this story might be #A31D1D, #E5D0AC, #FEF9E1"\<newline>'' @
     ''                "story": \<newline>'' @
     ''                    "part_1": \<newline>'' @
     ''                        "story": "The sun peeked through the leaves as Lily and Tom stumbled upon a rickety ladder leading to a treehouse hidden among the branches.",\<newline>'' @
     ''                        "image_prompt": "A sunny, whimsical treehouse hidden in a lush forest with a ladder leading up to it. Light background, 1/3 of a corner should be free for the text."\<newline>'' @
     ''                    ,\<newline>'' @
     ''                    "part_2": \<newline>'' @
     ''                        "story": "Inside, they found a sparkling map that promised a journey to the land of talking animals.",\<newline>'' @
     ''                        "image_prompt": "Inside the treehouse, a map glitters invitingly, surrounded by simple wooden furniture, light background, 1/3 corner free for text"\<newline>'' @
     ''                    ,\<newline>'' @
     ''                    "part_3": \<newline>'' @
     ''                        "story": "They met a friendly fox who gave them directions to the land of happy smiles",\<newline>'' @
     ''                        "image_prompt": "A smiling fox and two young children standing on a path surrounded by lush green grass, light background, 1/3 corner free for text"\<newline>'' @
     ''                     \<newline>'' @
     ''            ```\<newline>'' @
     ''                    \<newline>'' @
     ''        ''\<close>

definition story_length_line :: "int \<Rightarrow> string" where
  \<open>story_length_line n =
     ''            1.  **Story Length:** The generated story must not exceed a '' @ str_int n @ ''  word count.\<newline>''\<close>

definition story_segmentation_line :: "int \<Rightarrow> string" where
  \<open>story_segmentation_line parts =
     ''            2.  **Story Segmentation:** Divide the story into a '' @ str_int parts @ '' number of parts. Each part should flow logically to create a cohesive narrative. \<newline>''\<close>

definition story_theme_line :: "string \<Rightarrow> string" where
  \<open>story_theme_line theme =
     ''            3.  **Story Theme:** The story must adhere to a given theme, which will be represented by '' @ theme @ ''. Ensure the plot, characters, and overall tone align with this theme.\<newline>''\<close>

definition inspiration_source_line :: "string \<Rightarrow> string" where
  \<open>inspiration_source_line inspiration =
     ''            4.  **Inspiration Source:** Draw inspiration from the provided source, represented by '' @ inspiration @ ''. This could be a specific event, a historical figure, a literary work, or any other relevant input. Let the inspiration influence the story's narrative, but don't plagiarize directly.\<newline>''\<close>

definition image_match_line :: "string \<Rightarrow> string \<Rightarrow> string" where
  \<open>image_match_line inspiration theme =
     ''                *   Image and image should match the inspiration from '' @ inspiration @ '' and theme from '' @ theme @ ''\<newline>''\<close>

definition instructions_text :: "int \<Rightarrow> int \<Rightarrow> string \<Rightarrow> string \<Rightarrow> string" where
  "instructions_text n parts theme inspiration =
     instructions_preamble @
     story_length_line n @
     story_segmentation_line parts @
     story_theme_line theme @
     inspiration_source_line inspiration @
     instructions_image_rules @
     image_match_line inspiration theme @
     instructions_style_rules @
     instructions_output_format @
     instructions_example"

section \<open>The generator object\<close>

type_synonym image = string

text \<open>A \<^verbatim>\<open>PromptTemplate\<close>: the template, its input variables and its partial variables.\<close>

record PromptTemplate =
  template :: string
  pt_input_variables :: "string list"
  partial_variables :: "(string \<times> pyopt) list"

record StoryGenerator =
  story_theme :: string
  story_inspiration :: string
  n_words :: int
  story_parts :: "int option"
  instrucitons :: "string option"
  topic :: "pyopt option"
  context' :: "pyopt option"
  prompt_template :: "string option"
  input_variables :: "string list option"
  image' :: "image option"
  image_prompt :: "(string \<times> image) option"
  prompt :: "PromptTemplate option"
  response :: "json option"

text \<open>
  \<^verbatim>\<open>story_instructions\<close>: \<^verbatim>\<open>self.story_parts = self.n_words // 200\<close>, then the
  instruction block with \<^verbatim>\<open>n_words\<close>, \<^verbatim>\<open>story_parts\<close>, \<^verbatim>\<open>story_theme\<close> and
  \<^verbatim>\<open>story_inspiration\<close> interpolated. Python's \<^verbatim>\<open>//\<close> on integers rounds towards
  minus infinity, as \<open>div\<close> on \<open>int\<close> does.
\<close>

definition story_instructions :: "StoryGenerator \<Rightarrow> StoryGenerator" where
  "story_instructions g =
     (let parts = n_words g div 200;
          g1 = g\<lparr>story_parts := Some parts\<rparr>
      in g1\<lparr>instrucitons :=
              Some (instructions_text (n_words g1) parts (story_theme g1) (story_inspiration g1))\<rparr>)"

text \<open>
  \<^verbatim>\<open>__init__\<close>: stores the three parameters and calls \<^verbatim>\<open>story_instructions\<close>. The
  model handles it creates are the services of the environment below. No other
  attribute is assigned.
\<close>

definition StoryGenerator_init :: "string \<Rightarrow> string \<Rightarrow> int \<Rightarrow> StoryGenerator" where
  "StoryGenerator_init theme inspiration n =
     story_instructions
       \<lparr>story_theme = theme, story_inspiration = inspiration, n_words = n,
        story_parts = None, instrucitons = None, topic = None, context' = None,
        prompt_template = None, input_variables = None, image' = None,
        image_prompt = None, prompt = None, response = None\<rparr>"

text \<open>The constructor's defaults: \<^verbatim>\<open>StoryGenerator()\<close>.\<close>

definition StoryGenerator_default :: StoryGenerator where
  "StoryGenerator_default = StoryGenerator_init ''General'' ''General'' 200"

section \<open>Prompt templates\<close>

text \<open>
  The templates are formatted as Python format strings (\<^verbatim>\<open>template_format="f-string"\<close>):
  \<^verbatim>\<open>{{\<close> and \<^verbatim>\<open>}}\<close> stand for a brace, \<^verbatim>\<open>{name}\<close> is replaced by \<^verbatim>\<open>str\<close> of the value
  passed for \<^verbatim>\<open>name\<close>, a single \<^verbatim>\<open>}\<close> or an unclosed \<^verbatim>\<open>{\<close> is a \<^verbatim>\<open>ValueError\<close>, and a
  name with no value is a \<^verbatim>\<open>KeyError\<close>. Values passed for names that the template does
  not mention are ignored. This is the behaviour of the prompt library for templates
  whose replacement fields are plain names, as those of the source are; any other
  field is reported as \<open>UnsupportedField\<close>.
\<close>

datatype piece = Chr char | Field string

datatype scan_mode = InText | InField string

definition plain_field :: "string \<Rightarrow> bool" where
  "plain_field name \<longleftrightarrow>
     name \<noteq> [] \<and> list_all (\<lambda>c. c \<notin> set ''!:.[]{'') name \<and>
     \<not> list_all (\<lambda>c. c \<in> set ''0123456789'') name"

fun parse_template :: "scan_mode \<Rightarrow> string \<Rightarrow> error + piece list" where
  "parse_template InText [] = Inr []"
| "parse_template (InField name) [] = Inl ValueError"
| "parse_template InText (c # cs) =
     (if c = CHR ''{'' then
        (case cs of
           [] \<Rightarrow> Inl ValueError
         | d # ds \<Rightarrow>
             if d = CHR ''{'' then map_sum id ((#) (Chr c)) (parse_template InText ds)
             else parse_template (InField []) cs)
      else if c = CHR ''}'' then
        (case cs of
           [] \<Rightarrow> Inl ValueError
         | d # ds \<Rightarrow>
             if d = CHR ''}'' then map_sum id ((#) (Chr c)) (parse_template InText ds)
             else Inl ValueError)
      else map_sum id ((#) (Chr c)) (parse_template InText cs))"
| "parse_template (InField name) (c # cs) =
     (if c = CHR ''}'' then
        (if plain_field name then map_sum id ((#) (Field name)) (parse_template InText cs)
         else Inl (UnsupportedField name))
      else parse_template (InField (name @ [c])) cs)"

fun format_pieces :: "(string \<times> pyopt) list \<Rightarrow> piece list \<Rightarrow> error + string" where
  "format_pieces kwargs [] = Inr []"
| "format_pieces kwargs (Chr c # ps) = map_sum id ((#) c) (format_pieces kwargs ps)"
| "format_pieces kwargs (Field name # ps) =
     (case map_of kwargs name of
        None \<Rightarrow> Inl (KeyError name)
      | Some v \<Rightarrow> map_sum id ((@) (py_str v)) (format_pieces kwargs ps))"

definition template_variables :: "piece list \<Rightarrow> string list" where
  "template_variables ps =
     sort (remdups (concat (map (\<lambda>p. case p of Chr c \<Rightarrow> [] | Field n \<Rightarrow> [n]) ps)))"

text \<open>
  Constructing a \<^verbatim>\<open>PromptTemplate\<close> parses the template (a malformed one is refused)
  and takes as input variables the names of the template, without repetition and
  sorted as strings, that are not partial variables; they supersede the
  \<^verbatim>\<open>input_variables\<close> argument.
\<close>

definition PromptTemplate_new ::
  "string \<Rightarrow> string list \<Rightarrow> (string \<times> pyopt) list \<Rightarrow> error + PromptTemplate" where
  "PromptTemplate_new t vars partials =
     (case parse_template InText t of
        Inl e \<Rightarrow> Inl e
      | Inr ps \<Rightarrow>
          Inr \<lparr>template = t,
               pt_input_variables = filter (\<lambda>v. v \<notin> fst ` set partials) (template_variables ps),
               partial_variables = partials\<rparr>)"

text \<open>
  Invoking the template with the inputs \<open>kwargs\<close>: an input variable without a value is
  a \<^verbatim>\<open>KeyError\<close>; otherwise the template is formatted with the partial variables
  overridden by the inputs.
\<close>

definition PromptTemplate_invoke :: "PromptTemplate \<Rightarrow> (string \<times> pyopt) list \<Rightarrow> error + string" where
  "PromptTemplate_invoke p kwargs =
     (case filter (\<lambda>v. v \<notin> fst ` set kwargs) (pt_input_variables p) of
        v # vs \<Rightarrow> Inl (KeyError v)
      | [] \<Rightarrow>
          (case parse_template InText (template p) of
             Inl e \<Rightarrow> Inl e
           | Inr ps \<Rightarrow> format_pieces (kwargs @ partial_variables p) ps))"

section \<open>The environment\<close>

text \<open>
  What the methods reach outside the object: the file \<^verbatim>\<open>inputs/prompt_w_topic.txt\<close>
  (its content, or the error of opening it), the image-to-text model
  (\<^verbatim>\<open>generate_content(...).text\<close>), the language model behind \<^verbatim>\<open>self.llm\<close>, and the
  \<^verbatim>\<open>JsonOutputParser\<close> for the \<^verbatim>\<open>Story\<close> schema with its format instructions and its
  parse of a response text. The two models are given the calls made so far, so that
  they may answer the same request differently at different times. Every call to a
  model is recorded, whether it returns or raises.
\<close>

datatype call = ImageDescription string image | TextGeneration string

record env =
  prompt_w_topic_file :: "error + string"
  generate_content_text :: "call list \<Rightarrow> string \<Rightarrow> image \<Rightarrow> error + string"
  llm_invoke :: "call list \<Rightarrow> string \<Rightarrow> error + string"
  get_format_instructions :: string
  parser_invoke :: "string \<Rightarrow> error + json"

type_synonym state = "call list \<times> StoryGenerator"

section \<open>Mode selection\<close>

text \<open>The template that \<^verbatim>\<open>set_context\<close> installs for a context.\<close>

definition context_prompt_template :: string where
  \<open>context_prompt_template =
     ''\<newline>'' @
     ''                Generate a short story based on the context provide in the STORY_CONTEXT section\<newline>'' @
     ''\<newline>'' @
     ''\<newline>'' @
     ''                INSTRUCTIONS:\<newline>'' @
     ''                    {instructions_placeholder}\<newline>'' @
     ''\<newline>'' @
     ''                STORY_CONTEXT:\<newline>'' @
     ''                {context_placeholder}\<newline>'' @
     ''            ''\<close>

text \<open>The template that \<^verbatim>\<open>set_context\<close> installs when it is given neither topic nor context.\<close>

definition default_topic_prompt_template :: string where
  \<open>default_topic_prompt_template =
     ''Generate a story on {TOPIC} \<newline>INSTRUCTIONS: \<newline> {instructions_placeholder}''\<close>

fun set_context :: "env \<Rightarrow> pyopt \<Rightarrow> pyopt \<Rightarrow> state \<Rightarrow> (error + unit) \<times> state" where
  "set_context e context_arg topic_arg (cs, g) =
     (let g1 = g\<lparr>topic := Some topic_arg\<rparr>;
          g2 = g1\<lparr>context' := Some context_arg\<rparr>
      in if truthy topic_arg then
           (let g3 = g2\<lparr>topic := Some topic_arg\<rparr>
            in (case prompt_w_topic_file e of
                  Inl err \<Rightarrow> (Inl err, cs, g3)
                | Inr prompt_text \<Rightarrow>
                    (Inr (), cs,
                     g3\<lparr>prompt_template := Some prompt_text,
                        input_variables := Some [''TOPIC'', ''instructions_placeholder'']\<rparr>)))
         else if truthy context_arg then
           (Inr (), cs,
            g2\<lparr>context' := Some context_arg,
               prompt_template := Some context_prompt_template,
               input_variables := Some [''instructions_placeholder'', ''context_placeholder'']\<rparr>)
         else
           (Inr (), cs,
            g2\<lparr>prompt_template := Some default_topic_prompt_template,
               input_variables := Some [''TOPIC'', ''instructions_placeholder'']\<rparr>))"

text \<open>The analysis prompt that \<^verbatim>\<open>set_image_context\<close> sends with the image.\<close>

definition image_description_prompt_a :: string where
  \<open>image_description_prompt_a =
     ''\<newline>'' @
     ''            **Objective:** Generate a comprehensive and detailed description of the provided image, focusing on aspects that will be useful for subsequent story generation.\<newline>'' @
     ''\<newline>'' @
     ''            **Instructions:**\<newline>'' @
     ''\<newline>'' @
     ''            1.  **Image Type & Overall Impression:**\<newline>'' @
     ''                *   Begin by identifying the image type (e.g., photograph, painting, digital illustration, infographic, chart, etc.).\<newline>'' @
     ''                *   Provide a brief summary of the overall impression or mood conveyed by the image. Is it whimsical, serious, chaotic, peaceful, etc.?\<newline>'' @
     ''\<newline>'' @
     ''            2.  **Key Elements and Characters:**\<newline>'' @
     ''                *   **Identify and Describe:**  Meticulously list and describe all significant elements, objects, and characters present in the image.\<newline>'' @
     ''                *   **Character Details:** If characters are present, describe their:\<newline>'' @
     ''                    *   Appearance (age, clothing, facial features, posture, etc.)\<newline>'' @
     ''                    *   Possible emotions or expressions.\<newline>'' @
     ''                    *   Interactions with other elements or characters, if any.\<newline>'' @
     ''                *   **Object Details:** For objects, detail their:\<newline>'' @
     ''                    *   Shape, size, material, and any distinctive features.\<newline>'' @
     ''                    *   Position and arrangement within the image.\<newline>'' @
     ''            \<newline>'' @
     ''            3. **Visual Style and Aesthetics:**\<newline>'' @
     ''                *  **Style:** Describe the overall artistic style of the image (e.g., realistic, abstract, cartoonish, impressionistic, etc.).\<newline>'' @
     ''                * **Color Palette:**  Analyze and specify the dominant colors and color relationships, and describe the overall color scheme. How do they contribute to the image's atmosphere?\<newline>'' @
     ''                * **Composition:** Comment on how elements are arranged within the image.  Is there a focal point? What are the effects of leading lines, perspectives, and symmetry?\<newline>'' @
     ''                * **Lighting:** Describe the quality of light in the image (e.g. bright, dim, natural, artificial). How is light used to highlight the characters or create shadows and mood?\<newline>'' @
     ''                \<newline>'' @
     ''            4.  **Data and Information (if applicable):**\<newline>'' @
     ''                *   **Statistical Data:** If the image contains numerical data, statistics, or values, explicitly state the numbers and their meaning. Present this information in a clear and concise manner using bullet points.\<newline>'' @
     ''                *   **Charts, Graphs, Infographics, Tables:** If the image contains charts, graphs, or tables:\<newline>'' @
     ''                    *   Describe the type of visualization (e.g., bar chart, pie chart, line graph).\<newline>'' @
     ''                    *   Identify axes and labels.\<newline>'' @
     ''                    *   Summarize the key data points and relationships displayed within the visualization.\<newline>'' @
     ''                *   **Text and Labels:** If there is any text or labels, transcribe and include them in your description as pointers. Explain the purpose of the text.\<newline>'' @
     ''\<newline>'' @
     ''            5.  **Contextual Relevance:**\<newline>'' @
     ''                *   **Interpreting the Scene:** Consider if the elements seem related. Is there a sense of space or location?\<newline>'' @
     ''                *   **Potential Story Hooks:** Briefly note any potential narrative elements that suggest a story. (e.g., a character looking determined, an unusual object, a mysterious atmosphere)\<newline>'' @
     ''\<newline>''\<close>

definition image_description_prompt_b :: string where
  \<open>image_description_prompt_b =
     ''            6.  **Restrictions and Limitations:**\<newline>'' @
     ''                *   **Image Based:**  Only describe aspects directly visible or inferred from the image.\<newline>'' @
     ''                *   **Avoid Assumptions:** Do not add information or make assumptions that are not supported by the image content.\<newline>'' @
     ''\<newline>'' @
     ''            **Example output structure**\<newline>'' @
     ''            ```\<newline>'' @
     ''            Type of image: Photograph\<newline>'' @
     ''            Mood: Serene, nostalgic\<newline>'' @
     ''            Key Elements:\<newline>'' @
     ''                - An old wooden rowboat resting on a calm lake.\<newline>'' @
     ''                - A few tall pine trees surrounding the lake\<newline>'' @
     ''                - A soft, hazy sunset.\<newline>'' @
     ''\<newline>'' @
     ''            Characters:\<newline>'' @
     ''                - No people are present.\<newline>'' @
     ''                - A family of ducks swimming near the boat.\<newline>'' @
     ''\<newline>'' @
     ''            Style: Realistic\<newline>'' @
     ''            Color Palette:\<newline>'' @
     ''                - Dominant colors are muted shades of blue, grey, green, and orange.\<newline>'' @
     ''                - The color palette creates a peaceful and somewhat melancholic mood.\<newline>'' @
     ''            Composition:\<newline>'' @
     ''                - The composition is horizontally oriented, with the rowboat as a point of interest in the left side, and a lot of empty space on the right\<newline>'' @
     ''\<newline>'' @
     ''            Data:\<newline>'' @
     ''            - No data is present\<newline>'' @
     ''            \<newline>'' @
     ''            Contextual relevance:\<newline>'' @
     ''                - Suggests a feeling of peace and tranquility. It could be a scene from the past.\<newline>'' @
     ''\<newline>'' @
     ''        ''\<close>

definition image_description_prompt :: string where
  "image_description_prompt = image_description_prompt_a @ image_description_prompt_b"

text \<open>The template that \<^verbatim>\<open>set_image_context\<close> installs.\<close>

definition image_context_prompt_template :: string where
  \<open>image_context_prompt_template =
     ''\<newline>'' @
     ''            Generate a short story based on the context provide in the STORY_CONTEXT section\<newline>'' @
     ''\<newline>'' @
     ''\<newline>'' @
     ''            INSTRUCTIONS:\<newline>'' @
     ''                {instructions_placeholder}\<newline>'' @
     ''\<newline>'' @
     ''            STORY_CONTEXT:\<newline>'' @
     ''            {context_placeholder}\<newline>'' @
     ''        ''\<close>

fun set_image_context :: "env \<Rightarrow> image \<Rightarrow> state \<Rightarrow> (error + unit) \<times> state" where
  "set_image_context e img (cs, g) =
     (let g1 = g\<lparr>image' := Some img\<rparr>;
          g2 = g1\<lparr>image_prompt := Some (image_description_prompt, img)\<rparr>;
          cs1 = cs @ [ImageDescription image_description_prompt img]
      in (case generate_content_text e cs image_description_prompt img of
            Inl err \<Rightarrow> (Inl err, cs1, g2)
          | Inr description \<Rightarrow>
              (Inr (), cs1,
               g2\<lparr>context' := Some (PyStr description),
                  prompt_template := Some image_context_prompt_template,
                  input_variables := Some [''instructions_placeholder'', ''context_placeholder'']\<rparr>)))"

section \<open>Generation\<close>

text \<open>
  The chain \<^verbatim>\<open>self.prompt | self.llm | parser\<close> invoked on the inputs: the prompt is
  rendered, sent to the language model, and the answer is handed to the parser, whose
  result is stored in \<^verbatim>\<open>self.response\<close> and returned. \<open>llm_parser_invoke\<close> is the part
  of the chain after the prompt.
\<close>

fun llm_parser_invoke :: "env \<Rightarrow> string \<Rightarrow> state \<Rightarrow> (error + json) \<times> state" where
  "llm_parser_invoke e text (cs, g) =
     (let cs1 = cs @ [TextGeneration text]
      in (case llm_invoke e cs text of
            Inl err \<Rightarrow> (Inl err, cs1, g)
          | Inr answer \<Rightarrow>
              (case parser_invoke e answer of
                 Inl err \<Rightarrow> (Inl err, cs1, g)
               | Inr j \<Rightarrow> (Inr j, cs1, g\<lparr>response := Some j\<rparr>))))"

fun chain_invoke ::
  "env \<Rightarrow> PromptTemplate \<Rightarrow> (string \<times> pyopt) list \<Rightarrow> state \<Rightarrow> (error + json) \<times> state" where
  "chain_invoke e p kwargs (cs, g) =
     (case PromptTemplate_invoke p kwargs of
        Inl err \<Rightarrow> (Inl err, cs, g)
      | Inr text \<Rightarrow> llm_parser_invoke e text (cs, g))"

text \<open>
  \<^verbatim>\<open>generate_response\<close>. The \<^verbatim>\<open>try\<close> block re-raises what it catches, so every
  error leaves the method unchanged.
\<close>

fun generate_response :: "env \<Rightarrow> state \<Rightarrow> (error + json) \<times> state" where
  "generate_response e (cs, g) =
     (case prompt_template g of
        None \<Rightarrow> (Inl (AttributeError ''prompt_template''), cs, g)
      | Some t \<Rightarrow>
       (case input_variables g of
          None \<Rightarrow> (Inl (AttributeError ''input_variables''), cs, g)
        | Some vars \<Rightarrow>
         (case PromptTemplate_new t vars
                 [(''format_instructions'', PyStr (get_format_instructions e))] of
            Inl err \<Rightarrow> (Inl err, cs, g)
          | Inr p \<Rightarrow>
             (let g1 = g\<lparr>prompt := Some p\<rparr>
              in if ''context_placeholder'' \<in> set vars then
                   (case instrucitons g1 of
                      None \<Rightarrow> (Inl (AttributeError ''instrucitons''), cs, g1)
                    | Some ins \<Rightarrow>
                     (case context' g1 of
                        None \<Rightarrow> (Inl (AttributeError ''context''), cs, g1)
                      | Some c \<Rightarrow>
                          chain_invoke e p
                            [(''instructions_placeholder'', PyStr ins), (''context_placeholder'', c)]
                            (cs, g1)))
                 else
                   (case topic g1 of
                      None \<Rightarrow> (Inl (AttributeError ''topic''), cs, g1)
                    | Some tp \<Rightarrow>
                       (let tp1 = (if tp = PyNone then PyStr ''Random'' else tp);
                            g2 = (if tp = PyNone then g1\<lparr>topic := Some (PyStr ''Random'')\<rparr> else g1)
                        in (case instrucitons g2 of
                              None \<Rightarrow> (Inl (AttributeError ''instrucitons''), cs, g2)
                            | Some ins \<Rightarrow>
                                chain_invoke e p
                                  [(''instructions_placeholder'', PyStr ins), (''TOPIC'', tp1)]
                                  (cs, g2))))))))"

declare set_context.simps [simp del]
declare set_image_context.simps [simp del]
declare llm_parser_invoke.simps [simp del]
declare chain_invoke.simps [simp del]
declare generate_response.simps [simp del]

section \<open>Rendered prompts\<close>

text \<open>
  The three templates of the source with their placeholders replaced: what formatting
  the template yields, as shown below (\<open>invoke_context_prompt\<close>,
  \<open>invoke_image_context_prompt\<close>, \<open>invoke_default_topic_prompt\<close>). Putting the
  placeholders back gives the templates (\<open>context_prompt_holes\<close> and its siblings).
\<close>

definition context_prompt :: "string \<Rightarrow> string \<Rightarrow> string" where
  \<open>context_prompt ins c =
     ''\<newline>'' @
     ''                Generate a short story based on the context provide in the STORY_CONTEXT section\<newline>'' @
     ''\<newline>'' @
     ''\<newline>'' @
     ''                INSTRUCTIONS:\<newline>'' @
     ''                    '' @ ins @ ''\<newline>'' @
     ''\<newline>'' @
     ''                STORY_CONTEXT:\<newline>'' @
     ''                '' @ c @ ''\<newline>'' @
     ''            ''\<close>

definition image_context_prompt :: "string \<Rightarrow> string \<Rightarrow> string" where
  \<open>image_context_prompt ins c =
     ''\<newline>'' @
     ''            Generate a short story based on the context provide in the STORY_CONTEXT section\<newline>'' @
     ''\<newline>'' @
     ''\<newline>'' @
     ''            INSTRUCTIONS:\<newline>'' @
     ''                '' @ ins @ ''\<newline>'' @
     ''\<newline>'' @
     ''            STORY_CONTEXT:\<newline>'' @
     ''            '' @ c @ ''\<newline>'' @
     ''        ''\<close>

definition default_topic_prompt :: "string \<Rightarrow> string \<Rightarrow> string" where
  \<open>default_topic_prompt tp ins =
     ''Generate a story on '' @ tp @ '' \<newline>INSTRUCTIONS: \<newline> '' @ ins\<close>

text \<open>
  The \<^verbatim>\<open>PromptTemplate\<close> that \<^verbatim>\<open>generate_response\<close> builds from a well-formed template
  whose variables are \<open>vars\<close>, with the format instructions \<open>fi\<close> as its partial variable.
\<close>

definition installed_prompt :: "string \<Rightarrow> string list \<Rightarrow> string \<Rightarrow> PromptTemplate" where
  "installed_prompt t vars fi =
     \<lparr>template = t, pt_input_variables = vars,
      partial_variables = [(''format_instructions'', PyStr fi)]\<rparr>"

section \<open>A sample environment\<close>

text \<open>
  A concrete environment for evaluating the methods: a topic template file, an image
  model that answers with a fixed description, a language model that answers with the
  empty JSON object, format instructions of the kind a JSON output parser gives
  (a sentence followed by a schema), and a parser that accepts only that answer.
\<close>

definition sample_topic_file :: string where
  \<open>sample_topic_file = ''Write a story about {TOPIC}.\<newline>{instructions_placeholder}''\<close>

definition sample_format_instructions :: string where
  \<open>sample_format_instructions =
     ''The output should be formatted as a JSON instance that conforms to the JSON schema below.\<newline>'' @
     ''{"properties": {"title": {"title": "Title", "type": "string"}}, "required": ["title"]}''\<close>

definition sample_env :: env where
  "sample_env =
     \<lparr>prompt_w_topic_file = Inr sample_topic_file,
      generate_content_text = (\<lambda>cs p img. Inr ''Type of image: Photograph''),
      llm_invoke = (\<lambda>cs p. Inr ''{}''),
      get_format_instructions = sample_format_instructions,
      parser_invoke = (\<lambda>s. if s = ''{}'' then Inr (JObj []) else Inl (OutputParserException s))\<rparr>"

section \<open>The result contract of the specification\<close>

text \<open>
  The structural contract that the specification states for a \<^verbatim>\<open>StoryResult\<close>, written
  from its words (section 4.3): all five top-level keys are present, \<^verbatim>\<open>style\<close> is a
  mapping with the three style keys, and \<^verbatim>\<open>story\<close> is a mapping whose keys are exactly
  \<^verbatim>\<open>part_1\<close> to \<^verbatim>\<open>part_N\<close> for the part count \<^verbatim>\<open>N\<close>, each part holding non-empty strings
  \<^verbatim>\<open>story\<close> and \<^verbatim>\<open>image_prompt\<close>. No function of the source computes it; it is here to
  be compared with what \<^verbatim>\<open>generate_response\<close> returns.
\<close>

definition nonempty_string_at :: "(string \<times> json) list \<Rightarrow> string \<Rightarrow> bool" where
  "nonempty_string_at kv k = (case map_of kv k of Some (JStr s) \<Rightarrow> s \<noteq> [] | _ \<Rightarrow> False)"

definition story_part_ok :: "json \<Rightarrow> bool" where
  "story_part_ok j =
     (case j of
        JObj kv \<Rightarrow> nonempty_string_at kv ''story'' \<and> nonempty_string_at kv ''image_prompt''
      | _ \<Rightarrow> False)"

definition part_keys :: "int \<Rightarrow> string list" where
  "part_keys part_count = map (\<lambda>i. ''part_'' @ str_int i) [1..part_count]"

definition spec_StoryResult_contract :: "int \<Rightarrow> json \<Rightarrow> bool" where
  "spec_StoryResult_contract part_count j =
     (case j of
        JObj kv \<Rightarrow>
          list_all (\<lambda>k. map_of kv k \<noteq> None)
            [''style'', ''title'', ''introduction'', ''theme'', ''story''] \<and>
          (case map_of kv ''style'' of
             Some (JObj st) \<Rightarrow>
               list_all (\<lambda>k. map_of st k \<noteq> None)
                 [''background-color'', ''font-color'', ''font-family'']
           | _ \<Rightarrow> False) \<and>
          (case map_of kv ''story'' of
             Some (JObj parts) \<Rightarrow>
               distinct (map fst parts) \<and>
               set (map fst parts) = set (part_keys part_count) \<and>
               list_all (\<lambda>p. story_part_ok (snd p)) parts
           | _ \<Rightarrow> False)
      | _ \<Rightarrow> False)"

section \<open>Lines and indentation\<close>

text \<open>
  The lines of a text, a line without its leading spaces, a non-blank line indented by
  a given pad, and lines joined by newlines again.
\<close>

fun text_lines :: "string \<Rightarrow> string list" where
  "text_lines [] = [[]]"
| "text_lines (c # cs) =
     (if c = CHR 0x0A then [] # text_lines cs
      else (case text_lines cs of [] \<Rightarrow> [[c]] | l # ls \<Rightarrow> (c # l) # ls))"

definition dedent :: "string \<Rightarrow> string" where
  "dedent l = dropWhile (\<lambda>c. c = CHR '' '') l"

definition indent_line :: "string \<Rightarrow> string \<Rightarrow> string" where
  "indent_line pad l = (if l = [] then [] else pad @ l)"

fun join_lines :: "string list \<Rightarrow> string" where
  "join_lines [] = []"
| "join_lines [l] = l"
| "join_lines (l # m # ls) = l @ CHR 0x0A # join_lines (m # ls)"

section \<open>Properties\<close>

subsection \<open>The constructor\<close>

lemma story_parts_init:
  "story_parts (StoryGenerator_init theme inspiration n) = Some (n div 200)"
  by (simp add: StoryGenerator_init_def story_instructions_def Let_def)

lemma instrucitons_init:
  "instrucitons (StoryGenerator_init theme inspiration n) =
     Some (instructions_text n (n div 200) theme inspiration)"
  by (simp add: StoryGenerator_init_def story_instructions_def Let_def)

lemma default_fields:
  "n_words StoryGenerator_default = 200"
  "story_parts StoryGenerator_default = Some 1"
  "instrucitons StoryGenerator_default = Some (instructions_text 200 1 ''General'' ''General'')"
  "prompt_template StoryGenerator_default = None"
  "topic StoryGenerator_default = None"
  by (simp_all add: StoryGenerator_default_def StoryGenerator_init_def story_instructions_def Let_def)

subsection \<open>The part count and the instruction block\<close>


lemma str_int_0: "str_int 0 = ''0''"
  by (simp add: str_int_def str_nat.simps digit_char_def)

lemma segmentation_sentence_in_text:
  "sublist (''Divide the story into a '' @ str_int parts @ '' number of parts.'')
     (instructions_text n parts theme inspiration)"
proof -
  have "instructions_text n parts theme inspiration =
      (instructions_preamble @ story_length_line n @ ''            2.  **Story Segmentation:** '') @
      (''Divide the story into a '' @ str_int parts @ '' number of parts.'') @
      ('' Each part should flow logically to create a cohesive narrative. \<newline>'' @
       story_theme_line theme @ inspiration_source_line inspiration @ instructions_image_rules @
       image_match_line inspiration theme @ instructions_style_rules @
       instructions_output_format @ instructions_example)"
    by (simp add: instructions_text_def story_segmentation_line_def)
  then show ?thesis
    by (simp only: sublist_appendI)
qed

lemma digit_value_digit_char: "d < 10 \<Longrightarrow> digit_value (digit_char d) = Some d"
proof -
  assume "d < 10"
  then have "d \<in> {0, 1, 2, 3, 4, 5, 6, 7, 8, 9}" by auto
  then show ?thesis
    by (auto simp add: digit_char_def digit_value_def upt_conv_Cons)
qed

lemma decimal_digits_snoc:
  "decimal_digits acc (xs @ [c]) =
     (case decimal_digits acc xs of
        None \<Rightarrow> None
      | Some v \<Rightarrow> (case digit_value c of None \<Rightarrow> None | Some d \<Rightarrow> Some (10 * v + d)))"
  by (induction xs arbitrary: acc) (simp_all split: option.splits)

lemma str_nat_not_Nil: "str_nat n \<noteq> []"
  by (subst str_nat.simps) simp

lemma decimal_digits_str_nat: "decimal_digits 0 (str_nat n) = Some n"
proof (induction n rule: str_nat.induct)
  case (1 n)
  show ?case
  proof (cases "n < 10")
    case True
    then show ?thesis
      by (subst str_nat.simps) (simp add: digit_value_digit_char)
  next
    case False
    then have "decimal_digits 0 (str_nat (n div 10)) = Some (n div 10)"
      using 1 by simp
    moreover have "digit_value (digit_char (n mod 10)) = Some (n mod 10)"
      by (rule digit_value_digit_char) simp
    ultimately show ?thesis
      using False by (subst str_nat.simps) (simp add: decimal_digits_snoc)
  qed
qed

lemma decimal_value_str_int: "0 \<le> i \<Longrightarrow> decimal_value (str_int i) = Some (nat i)"
  by (simp add: decimal_value_def str_int_def str_nat_not_Nil decimal_digits_str_nat)

lemma str_int_2: "str_int 2 = ''2''"
  by (simp add: str_int_def str_nat.simps digit_char_def)

text \<open>
  Claim C2. For a non-negative \<^verbatim>\<open>n_words\<close>, \<^verbatim>\<open>story_instructions\<close> sets the part count to
  \<^verbatim>\<open>n_words\<close> integer-divided by 200, which is 0 below 200, and the instruction block
  it renders is the fixed text with that very number in the sentence that asks for the
  number of story parts: the digits written there read back as the part count, and
  below 200 the sentence asks for \<^verbatim>\<open>0\<close> parts.
\<close>

theorem part_count_embedded:
  "0 \<le> n_words g \<Longrightarrow>
     story_parts (story_instructions g) = Some (n_words g div 200) \<and>
     (n_words g < 200 \<longrightarrow> story_parts (story_instructions g) = Some 0) \<and>
     instrucitons (story_instructions g) =
       Some (instructions_text (n_words g) (n_words g div 200) (story_theme g) (story_inspiration g)) \<and>
     sublist (''Divide the story into a '' @ str_int (n_words g div 200) @ '' number of parts.'')
       (instructions_text (n_words g) (n_words g div 200) (story_theme g) (story_inspiration g)) \<and>
     decimal_value (str_int (n_words g div 200)) = Some (nat (n_words g div 200)) \<and>
     (n_words g < 200 \<longrightarrow>
        sublist ''Divide the story into a 0 number of parts.''
          (instructions_text (n_words g) (n_words g div 200) (story_theme g) (story_inspiration g)))"
proof -
  assume n: "0 \<le> n_words g"
  let ?p = "n_words g div 200"
  let ?text = "instructions_text (n_words g) ?p (story_theme g) (story_inspiration g)"
  have p: "0 \<le> ?p" using n by simp
  have sent: "sublist (''Divide the story into a '' @ str_int ?p @ '' number of parts.'') ?text"
    by (rule segmentation_sentence_in_text)
  have zero: "sublist ''Divide the story into a 0 number of parts.'' ?text" if "n_words g < 200"
  proof -
    have "?p = 0" using n that by simp
    then show ?thesis using sent by (simp add: str_int_0)
  qed
  have dec: "decimal_value (str_int ?p) = Some (nat ?p)"
    using p by (rule decimal_value_str_int)
  have parts: "story_parts (story_instructions g) = Some ?p"
    and ins: "instrucitons (story_instructions g) = Some ?text"
    by (simp_all add: story_instructions_def Let_def)
  have below: "story_parts (story_instructions g) = Some 0" if "n_words g < 200"
    using n that parts by simp
  show ?thesis
    using parts below ins sent dec zero by (intro conjI impI)
qed

theorem part_count_embedded_witness:
  "0 \<le> n_words (StoryGenerator_init ''General'' ''General'' 150) \<and>
   n_words (StoryGenerator_init ''General'' ''General'' 150) < 200 \<and>
   story_parts (story_instructions (StoryGenerator_init ''General'' ''General'' 150)) = Some 0 \<and>
   sublist ''Divide the story into a 0 number of parts.''
     (instructions_text 150 0 ''General'' ''General'') \<and>
   0 \<le> n_words (StoryGenerator_init ''General'' ''General'' 450) \<and>
   story_parts (story_instructions (StoryGenerator_init ''General'' ''General'' 450)) = Some 2 \<and>
   instrucitons (story_instructions (StoryGenerator_init ''General'' ''General'' 450)) =
     Some (instructions_text 450 2 ''General'' ''General'') \<and>
   sublist ''Divide the story into a 2 number of parts.''
     (instructions_text 450 2 ''General'' ''General'') \<and>
   decimal_value ''2'' = Some 2"
proof -
  have n150: "n_words (StoryGenerator_init ''General'' ''General'' 150) = 150"
    and n450: "n_words (StoryGenerator_init ''General'' ''General'' 450) = 450"
    and t150: "story_theme (StoryGenerator_init ''General'' ''General'' 150) = ''General''"
    and t450: "story_theme (StoryGenerator_init ''General'' ''General'' 450) = ''General''"
    and i150: "story_inspiration (StoryGenerator_init ''General'' ''General'' 150) = ''General''"
    and i450: "story_inspiration (StoryGenerator_init ''General'' ''General'' 450) = ''General''"
    by (simp_all add: StoryGenerator_init_def story_instructions_def Let_def)
  show ?thesis
    using part_count_embedded [of "StoryGenerator_init ''General'' ''General'' 150"]
      part_count_embedded [of "StoryGenerator_init ''General'' ''General'' 450"]
    by (simp add: n150 n450 t150 t450 i150 i450 str_int_0 str_int_2)
qed

subsection \<open>Formatting the templates of the source\<close>

lemma context_prompt_holes:
  "context_prompt ''{instructions_placeholder}'' ''{context_placeholder}'' = context_prompt_template"
  by (simp add: context_prompt_def context_prompt_template_def)

lemma plain_instructions_placeholder: "plain_field ''instructions_placeholder''"
  by (simp add: plain_field_def)

lemma plain_context_placeholder: "plain_field ''context_placeholder''"
  by (simp add: plain_field_def)

lemma plain_TOPIC: "plain_field ''TOPIC''"
  by (simp add: plain_field_def)

lemma parse_context_prompt_template:
  "\<exists>ps. parse_template InText context_prompt_template = Inr ps \<and>
        template_variables ps = [''context_placeholder'', ''instructions_placeholder''] \<and>
        (\<forall>kw ins c. map_of kw ''instructions_placeholder'' = Some (PyStr ins) \<longrightarrow>
            map_of kw ''context_placeholder'' = Some c \<longrightarrow>
            format_pieces kw ps = Inr (context_prompt ins (py_str c)))"
  by (simp add: context_prompt_template_def plain_instructions_placeholder
      plain_context_placeholder template_variables_def context_prompt_def)

lemma image_context_prompt_holes:
  "image_context_prompt ''{instructions_placeholder}'' ''{context_placeholder}'' =
     image_context_prompt_template"
  by (simp add: image_context_prompt_def image_context_prompt_template_def)

lemma default_topic_prompt_holes:
  "default_topic_prompt ''{TOPIC}'' ''{instructions_placeholder}'' = default_topic_prompt_template"
  by (simp add: default_topic_prompt_def default_topic_prompt_template_def)

lemma parse_image_context_prompt_template:
  "\<exists>ps. parse_template InText image_context_prompt_template = Inr ps \<and>
        template_variables ps = [''context_placeholder'', ''instructions_placeholder''] \<and>
        (\<forall>kw ins c. map_of kw ''instructions_placeholder'' = Some (PyStr ins) \<longrightarrow>
            map_of kw ''context_placeholder'' = Some c \<longrightarrow>
            format_pieces kw ps = Inr (image_context_prompt ins (py_str c)))"
  by (simp add: image_context_prompt_template_def plain_instructions_placeholder
      plain_context_placeholder template_variables_def image_context_prompt_def)

lemma parse_default_topic_prompt_template:
  "\<exists>ps. parse_template InText default_topic_prompt_template = Inr ps \<and>
        template_variables ps = [''TOPIC'', ''instructions_placeholder''] \<and>
        (\<forall>kw ins tp. map_of kw ''instructions_placeholder'' = Some (PyStr ins) \<longrightarrow>
            map_of kw ''TOPIC'' = Some tp \<longrightarrow>
            format_pieces kw ps = Inr (default_topic_prompt (py_str tp) ins))"
  by (simp add: default_topic_prompt_template_def plain_instructions_placeholder
      plain_TOPIC template_variables_def default_topic_prompt_def)

lemma new_context_prompt:
  "PromptTemplate_new context_prompt_template vars [(''format_instructions'', PyStr fi)] =
     Inr (installed_prompt context_prompt_template
            [''context_placeholder'', ''instructions_placeholder''] fi)"
  using parse_context_prompt_template
  by (auto simp add: PromptTemplate_new_def installed_prompt_def)

lemma invoke_context_prompt:
  "PromptTemplate_invoke
     (installed_prompt context_prompt_template
        [''context_placeholder'', ''instructions_placeholder''] fi)
     [(''instructions_placeholder'', PyStr ins), (''context_placeholder'', c)] =
   Inr (context_prompt ins (py_str c))"
  using parse_context_prompt_template
  by (auto simp add: PromptTemplate_invoke_def installed_prompt_def)

lemma new_image_context_prompt:
  "PromptTemplate_new image_context_prompt_template vars [(''format_instructions'', PyStr fi)] =
     Inr (installed_prompt image_context_prompt_template
            [''context_placeholder'', ''instructions_placeholder''] fi)"
  using parse_image_context_prompt_template
  by (auto simp add: PromptTemplate_new_def installed_prompt_def)

lemma invoke_image_context_prompt:
  "PromptTemplate_invoke
     (installed_prompt image_context_prompt_template
        [''context_placeholder'', ''instructions_placeholder''] fi)
     [(''instructions_placeholder'', PyStr ins), (''context_placeholder'', c)] =
   Inr (image_context_prompt ins (py_str c))"
  using parse_image_context_prompt_template
  by (auto simp add: PromptTemplate_invoke_def installed_prompt_def)

lemma new_default_topic_prompt:
  "PromptTemplate_new default_topic_prompt_template vars [(''format_instructions'', PyStr fi)] =
     Inr (installed_prompt default_topic_prompt_template
            [''TOPIC'', ''instructions_placeholder''] fi)"
  using parse_default_topic_prompt_template
  by (auto simp add: PromptTemplate_new_def installed_prompt_def)

lemma invoke_default_topic_prompt:
  "PromptTemplate_invoke
     (installed_prompt default_topic_prompt_template
        [''TOPIC'', ''instructions_placeholder''] fi)
     [(''instructions_placeholder'', PyStr ins), (''TOPIC'', tp)] =
   Inr (default_topic_prompt (py_str tp) ins)"
  using parse_default_topic_prompt_template
  by (auto simp add: PromptTemplate_invoke_def installed_prompt_def)

subsection \<open>Generation with each template\<close>

lemma generate_response_context_template:
  assumes "prompt_template g = Some context_prompt_template"
    and "input_variables g = Some [''instructions_placeholder'', ''context_placeholder'']"
    and "instrucitons g = Some ins"
    and "context' g = Some c"
  shows "generate_response e (cs, g) =
     llm_parser_invoke e (context_prompt ins (py_str c))
       (cs, g\<lparr>prompt := Some (installed_prompt context_prompt_template
          [''context_placeholder'', ''instructions_placeholder''] (get_format_instructions e))\<rparr>)"
  using assms
  by (simp add: generate_response.simps new_context_prompt chain_invoke.simps
      invoke_context_prompt)

lemma generate_response_image_template:
  assumes "prompt_template g = Some image_context_prompt_template"
    and "input_variables g = Some [''instructions_placeholder'', ''context_placeholder'']"
    and "instrucitons g = Some ins"
    and "context' g = Some c"
  shows "generate_response e (cs, g) =
     llm_parser_invoke e (image_context_prompt ins (py_str c))
       (cs, g\<lparr>prompt := Some (installed_prompt image_context_prompt_template
          [''context_placeholder'', ''instructions_placeholder''] (get_format_instructions e))\<rparr>)"
  using assms
  by (simp add: generate_response.simps new_image_context_prompt chain_invoke.simps
      invoke_image_context_prompt)

lemma generate_response_default_topic_None:
  assumes "prompt_template g = Some default_topic_prompt_template"
    and "input_variables g = Some [''TOPIC'', ''instructions_placeholder'']"
    and "instrucitons g = Some ins"
    and "topic g = Some PyNone"
  shows "generate_response e (cs, g) =
     llm_parser_invoke e (default_topic_prompt ''Random'' ins)
       (cs, g\<lparr>prompt := Some (installed_prompt default_topic_prompt_template
                 [''TOPIC'', ''instructions_placeholder''] (get_format_instructions e)),
              topic := Some (PyStr ''Random'')\<rparr>)"
  using assms
  by (simp add: generate_response.simps new_default_topic_prompt chain_invoke.simps
      invoke_default_topic_prompt Let_def)

lemma generate_response_default_topic_PyStr:
  assumes "prompt_template g = Some default_topic_prompt_template"
    and "input_variables g = Some [''TOPIC'', ''instructions_placeholder'']"
    and "instrucitons g = Some ins"
    and "topic g = Some (PyStr tp)"
  shows "generate_response e (cs, g) =
     llm_parser_invoke e (default_topic_prompt tp ins)
       (cs, g\<lparr>prompt := Some (installed_prompt default_topic_prompt_template
                 [''TOPIC'', ''instructions_placeholder''] (get_format_instructions e))\<rparr>)"
  using assms
  by (simp add: generate_response.simps new_default_topic_prompt chain_invoke.simps
      invoke_default_topic_prompt Let_def)

lemma llm_parser_invoke_calls:
  "fst (snd (llm_parser_invoke e text (cs, g))) = cs @ [TextGeneration text]"
  by (simp add: llm_parser_invoke.simps Let_def split: sum.splits)

lemma llm_parser_invoke_result:
  "fst (llm_parser_invoke e text (cs, g)) =
     (case llm_invoke e cs text of Inl err \<Rightarrow> Inl err | Inr answer \<Rightarrow> parser_invoke e answer)"
  by (simp add: llm_parser_invoke.simps Let_def split: sum.splits)

lemma llm_parser_invoke_object:
  "snd (snd (llm_parser_invoke e text (cs, g))) =
     (case fst (llm_parser_invoke e text (cs, g)) of
        Inl err \<Rightarrow> g
      | Inr j \<Rightarrow> g\<lparr>response := Some j\<rparr>)"
  by (simp add: llm_parser_invoke.simps Let_def split: sum.splits)

subsection \<open>What generation leaves unchanged\<close>

lemma llm_parser_invoke_frame:
  "story_theme (snd (snd (llm_parser_invoke e text (cs, g)))) = story_theme g \<and>
   story_inspiration (snd (snd (llm_parser_invoke e text (cs, g)))) = story_inspiration g \<and>
   n_words (snd (snd (llm_parser_invoke e text (cs, g)))) = n_words g \<and>
   story_parts (snd (snd (llm_parser_invoke e text (cs, g)))) = story_parts g \<and>
   instrucitons (snd (snd (llm_parser_invoke e text (cs, g)))) = instrucitons g \<and>
   prompt_template (snd (snd (llm_parser_invoke e text (cs, g)))) = prompt_template g \<and>
   input_variables (snd (snd (llm_parser_invoke e text (cs, g)))) = input_variables g \<and>
   topic (snd (snd (llm_parser_invoke e text (cs, g)))) = topic g \<and>
   context' (snd (snd (llm_parser_invoke e text (cs, g)))) = context' g"
  by (simp add: llm_parser_invoke.simps Let_def split: sum.splits)

lemma chain_invoke_frame:
  "story_theme (snd (snd (chain_invoke e p kw (cs, g)))) = story_theme g \<and>
   story_inspiration (snd (snd (chain_invoke e p kw (cs, g)))) = story_inspiration g \<and>
   n_words (snd (snd (chain_invoke e p kw (cs, g)))) = n_words g \<and>
   story_parts (snd (snd (chain_invoke e p kw (cs, g)))) = story_parts g \<and>
   instrucitons (snd (snd (chain_invoke e p kw (cs, g)))) = instrucitons g \<and>
   prompt_template (snd (snd (chain_invoke e p kw (cs, g)))) = prompt_template g \<and>
   input_variables (snd (snd (chain_invoke e p kw (cs, g)))) = input_variables g \<and>
   topic (snd (snd (chain_invoke e p kw (cs, g)))) = topic g \<and>
   context' (snd (snd (chain_invoke e p kw (cs, g)))) = context' g"
  using llm_parser_invoke_frame
  by (simp add: chain_invoke.simps split: sum.splits)

lemma generate_response_frame:
  "story_theme (snd (snd (generate_response e (cs, g)))) = story_theme g \<and>
   story_inspiration (snd (snd (generate_response e (cs, g)))) = story_inspiration g \<and>
   n_words (snd (snd (generate_response e (cs, g)))) = n_words g \<and>
   story_parts (snd (snd (generate_response e (cs, g)))) = story_parts g \<and>
   instrucitons (snd (snd (generate_response e (cs, g)))) = instrucitons g \<and>
   prompt_template (snd (snd (generate_response e (cs, g)))) = prompt_template g \<and>
   input_variables (snd (snd (generate_response e (cs, g)))) = input_variables g \<and>
   context' (snd (snd (generate_response e (cs, g)))) = context' g"
  by (simp add: generate_response.simps Let_def chain_invoke_frame
      split: option.splits sum.splits)

subsection \<open>Mode selection\<close>

text \<open>
  Claim C4, as amended. \<^verbatim>\<open>set_context\<close> called with a context and no topic never fails
  and calls no service. With an empty context it falls through to its last branch and
  installs the default topic template (placeholders \<^verbatim>\<open>TOPIC\<close> and
  \<^verbatim>\<open>instructions_placeholder\<close>); with a non-empty context it installs the context
  template (placeholders \<^verbatim>\<open>instructions_placeholder\<close> and \<^verbatim>\<open>context_placeholder\<close>).
\<close>

theorem set_context_no_topic:
  "set_context e (PyStr ctx) PyNone (cs, g) =
     (Inr (), cs,
      if ctx = [] then
        g\<lparr>topic := Some PyNone, context' := Some (PyStr ctx),
          prompt_template := Some default_topic_prompt_template,
          input_variables := Some [''TOPIC'', ''instructions_placeholder'']\<rparr>
      else
        g\<lparr>topic := Some PyNone, context' := Some (PyStr ctx),
          prompt_template := Some context_prompt_template,
          input_variables := Some [''instructions_placeholder'', ''context_placeholder'']\<rparr>)"
  by (simp add: set_context.simps Let_def)

text \<open>
  The claim as written asks for a \<^verbatim>\<open>PreconditionError\<close> on an empty context. On the
  default generator the call returns normally, with the default topic template
  installed.
\<close>

theorem empty_context_accepted:
  "set_context sample_env (PyStr '''') PyNone ([], StoryGenerator_default) =
     (Inr (), [],
      StoryGenerator_default
        \<lparr>topic := Some PyNone, context' := Some (PyStr ''''),
         prompt_template := Some default_topic_prompt_template,
         input_variables := Some [''TOPIC'', ''instructions_placeholder'']\<rparr>)"
  by (simp add: set_context.simps Let_def)

subsection \<open>Generation before any mode selection\<close>

text \<open>
  Claim C5, as amended. On a freshly constructed generator \<^verbatim>\<open>generate_response\<close> fails
  with the \<^verbatim>\<open>AttributeError\<close> of reading \<^verbatim>\<open>self.prompt_template\<close>, which no method has
  assigned yet; no service has been called (the call log is unchanged) and the object
  is unchanged.
\<close>

theorem generate_without_mode:
  "generate_response e (cs, StoryGenerator_init theme inspiration n) =
     (Inl (AttributeError ''prompt_template''), cs, StoryGenerator_init theme inspiration n)"
  by (simp add: generate_response.simps StoryGenerator_init_def story_instructions_def Let_def)

text \<open>
  The claim as written names the error \<^verbatim>\<open>PreconditionError\<close> with the message
  \<^verbatim>\<open>no input mode selected\<close>; the error raised is another one.
\<close>

theorem generate_without_mode_not_precondition_error:
  "fst (generate_response sample_env ([], StoryGenerator_default)) =
     Inl (AttributeError ''prompt_template'') \<and>
   fst (generate_response sample_env ([], StoryGenerator_default)) \<noteq>
     Inl (PreconditionError ''no input mode selected'')"
  by (simp add: generate_response.simps default_fields)

subsection \<open>The default topic\<close>

text \<open>
  Claim C8. After \<^verbatim>\<open>set_context\<close> with neither topic nor context the stored topic is
  still \<^verbatim>\<open>None\<close> and no service has been called; the prompt that \<^verbatim>\<open>generate_response\<close>
  then sends to the language model is the default topic template with \<^verbatim>\<open>Random\<close> in
  the place of \<^verbatim>\<open>TOPIC\<close>.
\<close>

theorem random_topic_at_generation:
  fixes e cs g
  defines "st \<equiv> set_context e PyNone PyNone (cs, g)"
  assumes "instrucitons g = Some ins"
  shows "fst st = Inr () \<and> fst (snd st) = cs \<and> topic (snd (snd st)) = Some PyNone \<and>
     fst (snd (generate_response e (snd st))) =
       cs @ [TextGeneration (default_topic_prompt ''Random'' ins)]"
  using assms
  by (simp add: set_context.simps Let_def generate_response_default_topic_None
      llm_parser_invoke_calls)

theorem random_topic_at_generation_witness:
  "instrucitons StoryGenerator_default = Some (instructions_text 200 1 ''General'' ''General'') \<and>
   topic (snd (snd (set_context sample_env PyNone PyNone ([], StoryGenerator_default)))) = Some PyNone \<and>
   fst (snd (generate_response sample_env
      (snd (set_context sample_env PyNone PyNone ([], StoryGenerator_default))))) =
     [TextGeneration (''Generate a story on Random \<newline>INSTRUCTIONS: \<newline> '' @
        instructions_text 200 1 ''General'' ''General'')]"
  using random_topic_at_generation [of StoryGenerator_default
      "instructions_text 200 1 ''General'' ''General''" sample_env "[]"]
  by (simp add: default_fields default_topic_prompt_def)

text \<open>
  Claim C10. In topic mode with the topic unset, \<^verbatim>\<open>generate_response\<close> leaves
  \<^verbatim>\<open>Random\<close> in the stored topic, whether the chain succeeds or fails, and a second
  call finds it there; \<^verbatim>\<open>story_theme\<close>, \<^verbatim>\<open>story_inspiration\<close>, \<^verbatim>\<open>n_words\<close>, the
  instruction block and the installed template are as before the call.
\<close>

theorem random_topic_persists:
  fixes e cs g c
  defines "st \<equiv> snd (set_context e c PyNone (cs, g))"
  defines "st1 \<equiv> snd (generate_response e st)"
  defines "st2 \<equiv> snd (generate_response e st1)"
  assumes "\<not> truthy c"
  shows "topic (snd st) = Some PyNone \<and>
     topic (snd st1) = Some (PyStr ''Random'') \<and>
     topic (snd st2) = Some (PyStr ''Random'') \<and>
     story_theme (snd st1) = story_theme (snd st) \<and>
     story_inspiration (snd st1) = story_inspiration (snd st) \<and>
     n_words (snd st1) = n_words (snd st) \<and>
     instrucitons (snd st1) = instrucitons (snd st) \<and>
     prompt_template (snd st1) = prompt_template (snd st)"
proof -
  have st: "st = (cs, g\<lparr>topic := Some PyNone, context' := Some c,
      prompt_template := Some default_topic_prompt_template,
      input_variables := Some [''TOPIC'', ''instructions_placeholder'']\<rparr>)"
    using assms by (simp add: set_context.simps Let_def)
  have t1: "topic (snd st1) = Some (PyStr ''Random'')"
    unfolding st1_def st
    by (simp add: generate_response.simps new_default_topic_prompt Let_def chain_invoke_frame
        split: option.splits)
  obtain cs1 g1 where s1: "st1 = (cs1, g1)" by (cases st1)
  have f1: "prompt_template g1 = Some default_topic_prompt_template \<and>
      input_variables g1 = Some [''TOPIC'', ''instructions_placeholder'']"
    using generate_response_frame [of e cs "snd st"] s1 unfolding st1_def st by simp
  have t2: "topic (snd st2) = Some (PyStr ''Random'')"
    using t1 f1 unfolding st2_def s1
    by (simp add: generate_response.simps new_default_topic_prompt Let_def chain_invoke_frame
        split: option.splits)
  show ?thesis
    using t1 t2 generate_response_frame [of e cs "snd st"] unfolding st1_def st by simp
qed

theorem random_topic_persists_witness:
  "\<not> truthy PyNone \<and>
   topic (snd (snd (set_context sample_env PyNone PyNone ([], StoryGenerator_default)))) = Some PyNone \<and>
   topic (snd (snd (generate_response sample_env
      (snd (set_context sample_env PyNone PyNone ([], StoryGenerator_default)))))) =
     Some (PyStr ''Random'') \<and>
   n_words (snd (snd (generate_response sample_env
      (snd (set_context sample_env PyNone PyNone ([], StoryGenerator_default)))))) = 200"
  using random_topic_persists [of PyNone sample_env "[]" StoryGenerator_default]
  by (simp add: set_context.simps Let_def default_fields)

subsection \<open>Braces in the rendered texts\<close>

lemma digit_char_in: "d < 10 \<Longrightarrow> digit_char d \<in> set ''0123456789''"
proof -
  assume "d < 10"
  then have "d \<in> {0, 1, 2, 3, 4, 5, 6, 7, 8, 9}" by auto
  then show ?thesis by (auto simp add: digit_char_def)
qed

lemma str_nat_digits: "set (str_nat n) \<subseteq> set ''0123456789''"
proof (induction n rule: str_nat.induct)
  case (1 n)
  show ?case
  proof (cases "n < 10")
    case True
    then show ?thesis
      using digit_char_in [of n] by (subst str_nat.simps) simp
  next
    case False
    then have "set (str_nat (n div 10)) \<subseteq> set ''0123456789''" using 1 by simp
    moreover have "digit_char (n mod 10) \<in> set ''0123456789''"
      by (rule digit_char_in) simp
    ultimately show ?thesis
      using False by (subst str_nat.simps) simp
  qed
qed

lemma str_int_no_brace: "CHR ''{'' \<notin> set (str_int i)"
  using str_nat_digits [of "nat i"] str_nat_digits [of "nat (- i)"]
  by (auto simp add: str_int_def)

lemma preamble_no_brace: "CHR ''{'' \<notin> set instructions_preamble"
  by (simp add: instructions_preamble_def)

lemma image_rules_no_brace: "CHR ''{'' \<notin> set instructions_image_rules"
  by (simp add: instructions_image_rules_def)

lemma style_rules_no_brace: "CHR ''{'' \<notin> set instructions_style_rules"
  by (simp add: instructions_style_rules_def)

lemma output_format_no_brace: "CHR ''{'' \<notin> set instructions_output_format"
  by (simp add: instructions_output_format_def)

lemma example_no_brace: "CHR ''{'' \<notin> set instructions_example"
  by (simp add: instructions_example_def)

lemma instructions_text_no_brace:
  assumes "CHR ''{'' \<notin> set theme" and "CHR ''{'' \<notin> set inspiration"
  shows "CHR ''{'' \<notin> set (instructions_text n parts theme inspiration)"
  using assms str_int_no_brace [of n] str_int_no_brace [of parts]
  by (simp add: instructions_text_def preamble_no_brace image_rules_no_brace
      style_rules_no_brace output_format_no_brace example_no_brace story_length_line_def
      story_segmentation_line_def story_theme_line_def inspiration_source_line_def
      image_match_line_def)

lemma context_prompt_no_brace:
  "CHR ''{'' \<notin> set ins \<Longrightarrow> CHR ''{'' \<notin> set c \<Longrightarrow> CHR ''{'' \<notin> set (context_prompt ins c)"
  by (simp add: context_prompt_def)

lemma not_sublist_by_char: "c \<in> set xs \<Longrightarrow> c \<notin> set ys \<Longrightarrow> \<not> sublist xs ys"
  using set_mono_sublist by fastforce

subsection \<open>The response and the parser\<close>

lemma chain_invoke_sent:
  assumes "fst (snd (chain_invoke e p kw (cs, g))) = cs @ [TextGeneration t]"
    and "llm_invoke e cs t = Inr answer"
  shows "fst (chain_invoke e p kw (cs, g)) = parser_invoke e answer \<and>
     (\<forall>j. parser_invoke e answer = Inr j \<longrightarrow>
        response (snd (snd (chain_invoke e p kw (cs, g)))) = Some j)"
  using assms
  by (auto simp add: chain_invoke.simps llm_parser_invoke.simps Let_def split: sum.splits)

lemma sample_default_topic_generation:
  "generate_response sample_env
     (snd (set_context sample_env PyNone PyNone ([], StoryGenerator_default))) =
   (Inr (JObj []),
    [TextGeneration (default_topic_prompt ''Random'' (instructions_text 200 1 ''General'' ''General''))],
    StoryGenerator_default
      \<lparr>topic := Some (PyStr ''Random''), context' := Some PyNone,
       prompt_template := Some default_topic_prompt_template,
       input_variables := Some [''TOPIC'', ''instructions_placeholder''],
       prompt := Some (installed_prompt default_topic_prompt_template
          [''TOPIC'', ''instructions_placeholder''] sample_format_instructions),
       response := Some (JObj [])\<rparr>)"
  by (simp add: set_context.simps Let_def generate_response_default_topic_None default_fields
      llm_parser_invoke.simps sample_env_def)

text \<open>
  Claim C1, as amended. \<^verbatim>\<open>generate_response\<close> validates nothing: whenever the prompt was
  sent and the language model answered, the method returns exactly what the JSON output
  parser makes of the answer, be it a parsed value of any shape, which is also stored in
  \<^verbatim>\<open>self.response\<close>, or the parser's own error for a text it cannot parse.
\<close>

theorem response_is_parser_result:
  assumes "fst (snd (generate_response e (cs, g))) = cs @ [TextGeneration t]"
    and "llm_invoke e cs t = Inr answer"
  shows "fst (generate_response e (cs, g)) = parser_invoke e answer \<and>
     (\<forall>j. parser_invoke e answer = Inr j \<longrightarrow>
        response (snd (snd (generate_response e (cs, g)))) = Some j)"
proof (cases "prompt_template g")
  case None
  then show ?thesis using assms by (simp add: generate_response.simps)
next
  case (Some tm)
  show ?thesis
  proof (cases "input_variables g")
    case None
    then show ?thesis using assms Some by (simp add: generate_response.simps)
  next
    case vars: (Some vs)
    show ?thesis
    proof (cases "PromptTemplate_new tm vs
        [(''format_instructions'', PyStr (get_format_instructions e))]")
      case (Inl err)
      then show ?thesis using assms Some vars by (simp add: generate_response.simps)
    next
      case (Inr p)
      show ?thesis
        using assms Some vars Inr
        by (auto simp add: generate_response.simps Let_def chain_invoke_sent
            split: option.splits if_splits)
    qed
  qed
qed

theorem response_is_parser_result_witness:
  "fst (snd (generate_response sample_env
       (snd (set_context sample_env PyNone PyNone ([], StoryGenerator_default))))) =
     [] @ [TextGeneration (default_topic_prompt ''Random'' (instructions_text 200 1 ''General'' ''General''))] \<and>
   llm_invoke sample_env []
     (default_topic_prompt ''Random'' (instructions_text 200 1 ''General'' ''General'')) = Inr ''{}'' \<and>
   fst (generate_response sample_env
       (snd (set_context sample_env PyNone PyNone ([], StoryGenerator_default)))) =
     parser_invoke sample_env ''{}'' \<and>
   parser_invoke sample_env ''{}'' = Inr (JObj []) \<and>
   response (snd (snd (generate_response sample_env
       (snd (set_context sample_env PyNone PyNone ([], StoryGenerator_default)))))) =
     Some (JObj [])"
proof -
  obtain g where g: "snd (set_context sample_env PyNone PyNone ([], StoryGenerator_default)) = ([], g)"
    by (simp add: set_context.simps Let_def)
  have sent: "fst (snd (generate_response sample_env ([], g))) =
      [] @ [TextGeneration (default_topic_prompt ''Random'' (instructions_text 200 1 ''General'' ''General''))]"
    using sample_default_topic_generation unfolding g by simp
  have answer: "llm_invoke sample_env []
      (default_topic_prompt ''Random'' (instructions_text 200 1 ''General'' ''General'')) = Inr ''{}''"
    by (simp add: sample_env_def)
  have parsed: "parser_invoke sample_env ''{}'' = Inr (JObj [])"
    by (simp add: sample_env_def)
  show ?thesis
    using response_is_parser_result [OF sent answer] sent answer parsed unfolding g by simp
qed

text \<open>
  The claim as written promises a result that meets the contract or an error. With a
  language model that answers \<^verbatim>\<open>{}\<close>, the default generator (one part) returns the
  empty object, which has none of the required keys.
\<close>

theorem unvalidated_response_returned:
  "story_parts StoryGenerator_default = Some 1 \<and>
   fst (generate_response sample_env
       (snd (set_context sample_env PyNone PyNone ([], StoryGenerator_default)))) = Inr (JObj []) \<and>
   fst (generate_response sample_env
       (snd (set_context sample_env PyNone PyNone ([], StoryGenerator_default)))) \<noteq>
     Inl (MalformedResponseError ''{}'') \<and>
   \<not> spec_StoryResult_contract 1 (JObj [])"
  by (simp add: sample_default_topic_generation default_fields spec_StoryResult_contract_def)

subsection \<open>The format instructions\<close>

lemma sample_format_instructions_brace: "CHR ''{'' \<in> set sample_format_instructions"
  by (simp add: sample_format_instructions_def)

text \<open>
  Claim C3. The claim says that the prompt sent to the language model contains the
  parser's format instructions. \<^verbatim>\<open>generate_response\<close> passes them to the
  \<^verbatim>\<open>PromptTemplate\<close> as the partial variable \<^verbatim>\<open>format_instructions\<close>, but no template of
  the source has a placeholder of that name. Evaluated on the default generator in
  context mode, the prompt sent is the context template filled with the instruction
  block and the context, and the format instructions do not occur in it.
\<close>

theorem format_instructions_not_in_prompt:
  "fst (snd (generate_response sample_env
      (snd (set_context sample_env (PyStr ''A misty forest'') PyNone ([], StoryGenerator_default))))) =
     [TextGeneration
        (context_prompt (instructions_text 200 1 ''General'' ''General'') ''A misty forest'')] \<and>
   \<not> sublist (get_format_instructions sample_env)
       (context_prompt (instructions_text 200 1 ''General'' ''General'') ''A misty forest'')"
proof -
  have "CHR ''{'' \<notin> set (context_prompt (instructions_text 200 1 ''General'' ''General'') ''A misty forest'')"
    by (rule context_prompt_no_brace, rule instructions_text_no_brace) simp_all
  then have "\<not> sublist sample_format_instructions
      (context_prompt (instructions_text 200 1 ''General'' ''General'') ''A misty forest'')"
    using sample_format_instructions_brace by (rule not_sublist_by_char [rotated])
  moreover have "get_format_instructions sample_env = sample_format_instructions"
    by (simp add: sample_env_def)
  ultimately show ?thesis
    by (simp add: set_context.simps Let_def generate_response_context_template default_fields
        llm_parser_invoke_calls)
qed

subsection \<open>A context after a topic\<close>

text \<open>
  Claim C6. Selecting a topic and then a non-empty context leaves the object exactly as
  selecting the context alone does, whatever the topic was and whether or not the
  topic template file could be read: the stored topic is \<^verbatim>\<open>None\<close>, the context template
  and its two placeholders are installed, and the prompt generated next is that
  template filled with the instruction block and the context. The topic does not enter
  it, and while the instruction block and the context have no brace the prompt has no
  \<^verbatim>\<open>{TOPIC}\<close> placeholder.
\<close>

theorem context_replaces_topic:
  fixes e cs g tp ctx
  defines "st1 \<equiv> snd (set_context e PyNone (PyStr tp) (cs, g))"
  defines "st2 \<equiv> snd (set_context e (PyStr ctx) PyNone st1)"
  assumes "ctx \<noteq> []" and "instrucitons g = Some ins"
  shows "st2 = snd (set_context e (PyStr ctx) PyNone (cs, g)) \<and>
     fst st2 = cs \<and>
     topic (snd st2) = Some PyNone \<and>
     context' (snd st2) = Some (PyStr ctx) \<and>
     prompt_template (snd st2) = Some context_prompt_template \<and>
     input_variables (snd st2) = Some [''instructions_placeholder'', ''context_placeholder''] \<and>
     fst (snd (generate_response e st2)) = cs @ [TextGeneration (context_prompt ins ctx)] \<and>
     (CHR ''{'' \<notin> set ins \<and> CHR ''{'' \<notin> set ctx \<longrightarrow>
        \<not> sublist ''{TOPIC}'' (context_prompt ins ctx))"
proof -
  have st2: "st2 = (cs, g\<lparr>topic := Some PyNone, context' := Some (PyStr ctx),
      prompt_template := Some context_prompt_template,
      input_variables := Some [''instructions_placeholder'', ''context_placeholder'']\<rparr>)"
    using assms by (simp add: set_context.simps Let_def split: sum.splits)
  have direct: "snd (set_context e (PyStr ctx) PyNone (cs, g)) =
      (cs, g\<lparr>topic := Some PyNone, context' := Some (PyStr ctx),
      prompt_template := Some context_prompt_template,
      input_variables := Some [''instructions_placeholder'', ''context_placeholder'']\<rparr>)"
    using assms by (simp add: set_context.simps Let_def)
  have sent: "fst (snd (generate_response e st2)) = cs @ [TextGeneration (context_prompt ins ctx)]"
    unfolding st2 using assms
    by (simp add: generate_response_context_template llm_parser_invoke_calls)
  have "CHR ''{'' \<notin> set ins \<and> CHR ''{'' \<notin> set ctx \<longrightarrow>
      \<not> sublist ''{TOPIC}'' (context_prompt ins ctx)"
    using context_prompt_no_brace [of ins ctx]
      not_sublist_by_char [of "CHR ''{''" "''{TOPIC}''" "context_prompt ins ctx"]
    by simp
  then show ?thesis
    using sent direct by (simp add: st2)
qed

theorem context_replaces_topic_witness:
  "''A misty forest'' \<noteq> [] \<and>
   instrucitons StoryGenerator_default = Some (instructions_text 200 1 ''General'' ''General'') \<and>
   CHR ''{'' \<notin> set (instructions_text 200 1 ''General'' ''General'') \<and>
   CHR ''{'' \<notin> set ''A misty forest'' \<and>
   topic (snd (snd (set_context sample_env (PyStr ''A misty forest'') PyNone
      (snd (set_context sample_env PyNone (PyStr ''Dragons'') ([], StoryGenerator_default)))))) =
     Some PyNone \<and>
   fst (snd (generate_response sample_env
      (snd (set_context sample_env (PyStr ''A misty forest'') PyNone
        (snd (set_context sample_env PyNone (PyStr ''Dragons'') ([], StoryGenerator_default))))))) =
     [TextGeneration
        (context_prompt (instructions_text 200 1 ''General'' ''General'') ''A misty forest'')] \<and>
   \<not> sublist ''{TOPIC}''
       (context_prompt (instructions_text 200 1 ''General'' ''General'') ''A misty forest'')"
proof -
  have "CHR ''{'' \<notin> set (instructions_text 200 1 ''General'' ''General'')"
    by (rule instructions_text_no_brace) simp_all
  then show ?thesis
    using context_replaces_topic [of "''A misty forest''" StoryGenerator_default
        "instructions_text 200 1 ''General'' ''General''" sample_env "''Dragons''" "[]"]
    by (simp add: default_fields set_context.simps Let_def sample_env_def)
qed

subsection \<open>Image mode\<close>

lemma templates_equal_up_to_indentation:
  "map dedent (text_lines image_context_prompt_template) =
   map dedent (text_lines context_prompt_template)"
  by (simp add: image_context_prompt_template_def context_prompt_template_def dedent_def)

lemma context_template_is_indented_image_template:
  "context_prompt_template =
     join_lines (map (indent_line ''    '') (text_lines image_context_prompt_template))"
  by (simp add: image_context_prompt_template_def context_prompt_template_def indent_line_def)

lemma templates_same_variables:
  "map_sum id template_variables (parse_template InText image_context_prompt_template) =
     Inr [''context_placeholder'', ''instructions_placeholder''] \<and>
   map_sum id template_variables (parse_template InText context_prompt_template) =
     Inr [''context_placeholder'', ''instructions_placeholder'']"
  using parse_image_context_prompt_template parse_context_prompt_template by auto

text \<open>
  Claim C7. When the image description service returns a description,
  \<^verbatim>\<open>set_image_context\<close> has called it exactly once, with the analysis prompt and the
  image, and has called nothing else; the description is stored verbatim as the
  context; the template installed has the shape of the one \<^verbatim>\<open>set_context\<close> installs for
  a context, with the same two placeholders and the same lines, each non-blank line
  indented by four spaces less; and the prompt generated next is the installed
  template with the instruction block and, verbatim, the description in the places of
  its two placeholders.
\<close>

theorem image_description_becomes_context:
  fixes e cs g img
  defines "st \<equiv> set_image_context e img (cs, g)"
  assumes "generate_content_text e cs image_description_prompt img = Inr description"
    and "instrucitons g = Some ins"
  shows "fst st = Inr () \<and>
     fst (snd st) = cs @ [ImageDescription image_description_prompt img] \<and>
     context' (snd (snd st)) = Some (PyStr description) \<and>
     prompt_template (snd (snd st)) = Some image_context_prompt_template \<and>
     input_variables (snd (snd st)) = Some [''instructions_placeholder'', ''context_placeholder''] \<and>
     (c \<noteq> [] \<longrightarrow>
        input_variables (snd (snd (set_context e (PyStr c) PyNone (cs, g)))) =
          input_variables (snd (snd st)) \<and>
        prompt_template (snd (snd (set_context e (PyStr c) PyNone (cs, g)))) =
          Some (join_lines (map (indent_line ''    '') (text_lines image_context_prompt_template)))) \<and>
     map_sum id template_variables (parse_template InText image_context_prompt_template) =
       map_sum id template_variables (parse_template InText context_prompt_template) \<and>
     map dedent (text_lines image_context_prompt_template) =
       map dedent (text_lines context_prompt_template) \<and>
     image_context_prompt ''{instructions_placeholder}'' ''{context_placeholder}'' =
       image_context_prompt_template \<and>
     fst (snd (generate_response e (snd st))) =
       cs @ [ImageDescription image_description_prompt img,
             TextGeneration (image_context_prompt ins description)]"
proof -
  have st: "st = (Inr (), cs @ [ImageDescription image_description_prompt img],
      g\<lparr>image' := Some img, image_prompt := Some (image_description_prompt, img),
        context' := Some (PyStr description),
        prompt_template := Some image_context_prompt_template,
        input_variables := Some [''instructions_placeholder'', ''context_placeholder'']\<rparr>)"
    using assms by (simp add: set_image_context.simps Let_def)
  have sent: "fst (snd (generate_response e (snd st))) =
       cs @ [ImageDescription image_description_prompt img,
             TextGeneration (image_context_prompt ins description)]"
    unfolding st using assms
    by (simp add: generate_response_image_template llm_parser_invoke_calls)
  have ctx: "input_variables (snd (snd (set_context e (PyStr c) PyNone (cs, g)))) =
          input_variables (snd (snd st)) \<and>
        prompt_template (snd (snd (set_context e (PyStr c) PyNone (cs, g)))) =
          Some (join_lines (map (indent_line ''    '') (text_lines image_context_prompt_template)))"
    if "c \<noteq> []"
    unfolding st using that context_template_is_indented_image_template
    by (simp add: set_context.simps Let_def)
  then have ctx': "c \<noteq> [] \<longrightarrow>
        input_variables (snd (snd (set_context e (PyStr c) PyNone (cs, g)))) =
          input_variables (snd (snd st)) \<and>
        prompt_template (snd (snd (set_context e (PyStr c) PyNone (cs, g)))) =
          Some (join_lines (map (indent_line ''    '') (text_lines image_context_prompt_template)))"
    by (rule impI)
  have vars: "map_sum id template_variables (parse_template InText image_context_prompt_template) =
       map_sum id template_variables (parse_template InText context_prompt_template)"
    using templates_same_variables by simp
  have fields: "fst st = Inr () \<and>
     fst (snd st) = cs @ [ImageDescription image_description_prompt img] \<and>
     context' (snd (snd st)) = Some (PyStr description) \<and>
     prompt_template (snd (snd st)) = Some image_context_prompt_template \<and>
     input_variables (snd (snd st)) = Some [''instructions_placeholder'', ''context_placeholder'']"
    unfolding st by simp
  show ?thesis
    using fields ctx' vars templates_equal_up_to_indentation image_context_prompt_holes sent
    by blast
qed

theorem image_description_becomes_context_witness:
  "generate_content_text sample_env [] image_description_prompt ''image bytes'' =
     Inr ''Type of image: Photograph'' \<and>
   instrucitons StoryGenerator_default = Some (instructions_text 200 1 ''General'' ''General'') \<and>
   ''A misty forest'' \<noteq> [] \<and>
   fst (snd (set_image_context sample_env ''image bytes'' ([], StoryGenerator_default))) =
     [ImageDescription image_description_prompt ''image bytes''] \<and>
   context' (snd (snd (set_image_context sample_env ''image bytes'' ([], StoryGenerator_default)))) =
     Some (PyStr ''Type of image: Photograph'') \<and>
   input_variables (snd (snd (set_context sample_env (PyStr ''A misty forest'') PyNone
       ([], StoryGenerator_default)))) =
     input_variables (snd (snd (set_image_context sample_env ''image bytes''
       ([], StoryGenerator_default)))) \<and>
   fst (snd (generate_response sample_env
       (snd (set_image_context sample_env ''image bytes'' ([], StoryGenerator_default))))) =
     [ImageDescription image_description_prompt ''image bytes'',
      TextGeneration (image_context_prompt (instructions_text 200 1 ''General'' ''General'')
         ''Type of image: Photograph'')]"
proof -
  have d: "generate_content_text sample_env [] image_description_prompt ''image bytes'' =
      Inr ''Type of image: Photograph''"
    by (simp add: sample_env_def)
  have i: "instrucitons StoryGenerator_default = Some (instructions_text 200 1 ''General'' ''General'')"
    by (simp add: default_fields)
  show ?thesis
    using image_description_becomes_context [OF d i, of "''A misty forest''"] d i by simp
qed

subsection \<open>A topic together with a context\<close>

lemma llm_parser_invoke_independent:
  "fst (llm_parser_invoke e text (cs, g)) = fst (llm_parser_invoke e text (cs, g')) \<and>
   fst (snd (llm_parser_invoke e text (cs, g))) = fst (snd (llm_parser_invoke e text (cs, g')))"
  by (simp add: llm_parser_invoke.simps Let_def split: sum.splits)

lemma chain_invoke_independent:
  "fst (chain_invoke e p kw (cs, g)) = fst (chain_invoke e p kw (cs, g')) \<and>
   fst (snd (chain_invoke e p kw (cs, g))) = fst (snd (chain_invoke e p kw (cs, g')))"
  using llm_parser_invoke_independent [of e _ cs g g']
  by (simp add: chain_invoke.simps split: sum.splits)

lemma generate_response_topic_template:
  assumes "prompt_template g = Some f"
    and "input_variables g = Some [''TOPIC'', ''instructions_placeholder'']"
    and "instrucitons g = Some ins"
    and "topic g = Some (PyStr tp)"
  shows "generate_response e (cs, g) =
     (case PromptTemplate_new f [''TOPIC'', ''instructions_placeholder'']
             [(''format_instructions'', PyStr (get_format_instructions e))] of
        Inl err \<Rightarrow> (Inl err, cs, g)
      | Inr p \<Rightarrow>
          chain_invoke e p [(''instructions_placeholder'', PyStr ins), (''TOPIC'', PyStr tp)]
            (cs, g\<lparr>prompt := Some p\<rparr>))"
  using assms by (simp add: generate_response.simps Let_def split: sum.splits)

text \<open>
  Claim C9. Given a non-empty topic and a non-empty context, \<^verbatim>\<open>set_context\<close> takes the
  topic branch: with the topic template file readable it installs the content of the
  file with the placeholders \<^verbatim>\<open>TOPIC\<close> and \<^verbatim>\<open>instructions_placeholder\<close>, generation
  formats it with the instruction block and the topic, and the outcome and the prompt
  sent are those of the same call without the context.
\<close>

theorem topic_takes_precedence:
  fixes e cs g tp ctx
  defines "st \<equiv> snd (set_context e (PyStr ctx) (PyStr tp) (cs, g))"
  defines "st0 \<equiv> snd (set_context e PyNone (PyStr tp) (cs, g))"
  assumes "tp \<noteq> []" and "ctx \<noteq> []"
    and "prompt_w_topic_file e = Inr f" and "instrucitons g = Some ins"
  shows "fst (set_context e (PyStr ctx) (PyStr tp) (cs, g)) = Inr () \<and>
     fst st = cs \<and>
     topic (snd st) = Some (PyStr tp) \<and>
     prompt_template (snd st) = Some f \<and>
     input_variables (snd st) = Some [''TOPIC'', ''instructions_placeholder''] \<and>
     generate_response e st =
       (case PromptTemplate_new f [''TOPIC'', ''instructions_placeholder'']
               [(''format_instructions'', PyStr (get_format_instructions e))] of
          Inl err \<Rightarrow> (Inl err, st)
        | Inr p \<Rightarrow>
            chain_invoke e p [(''instructions_placeholder'', PyStr ins), (''TOPIC'', PyStr tp)]
              (cs, (snd st)\<lparr>prompt := Some p\<rparr>)) \<and>
     fst (generate_response e st) = fst (generate_response e st0) \<and>
     fst (snd (generate_response e st)) = fst (snd (generate_response e st0))"
proof -
  let ?g = "\<lambda>c. g\<lparr>topic := Some (PyStr tp), context' := Some c, prompt_template := Some f,
      input_variables := Some [''TOPIC'', ''instructions_placeholder'']\<rparr>"
  have st: "st = (cs, ?g (PyStr ctx))" and st0: "st0 = (cs, ?g PyNone)"
    using assms by (simp_all add: set_context.simps Let_def)
  have ok: "fst (set_context e (PyStr ctx) (PyStr tp) (cs, g)) = Inr ()"
    using assms by (simp add: set_context.simps Let_def)
  have gen: "generate_response e (cs, ?g c) =
      (case PromptTemplate_new f [''TOPIC'', ''instructions_placeholder'']
             [(''format_instructions'', PyStr (get_format_instructions e))] of
        Inl err \<Rightarrow> (Inl err, cs, ?g c)
      | Inr p \<Rightarrow>
          chain_invoke e p [(''instructions_placeholder'', PyStr ins), (''TOPIC'', PyStr tp)]
            (cs, (?g c)\<lparr>prompt := Some p\<rparr>))" for c
    using assms by (intro generate_response_topic_template) simp_all
  have same: "fst (generate_response e (cs, ?g (PyStr ctx))) = fst (generate_response e (cs, ?g PyNone)) \<and>
      fst (snd (generate_response e (cs, ?g (PyStr ctx)))) =
      fst (snd (generate_response e (cs, ?g PyNone)))"
    unfolding gen using chain_invoke_independent
    by (simp split: sum.splits)
  have fields: "fst st = cs \<and> topic (snd st) = Some (PyStr tp) \<and>
      prompt_template (snd st) = Some f \<and>
      input_variables (snd st) = Some [''TOPIC'', ''instructions_placeholder'']"
    unfolding st by simp
  have run: "generate_response e st =
      (case PromptTemplate_new f [''TOPIC'', ''instructions_placeholder'']
               [(''format_instructions'', PyStr (get_format_instructions e))] of
          Inl err \<Rightarrow> (Inl err, st)
        | Inr p \<Rightarrow>
            chain_invoke e p [(''instructions_placeholder'', PyStr ins), (''TOPIC'', PyStr tp)]
              (cs, (snd st)\<lparr>prompt := Some p\<rparr>))"
    unfolding st snd_conv by (rule gen)
  have same': "fst (generate_response e st) = fst (generate_response e st0) \<and>
      fst (snd (generate_response e st)) = fst (snd (generate_response e st0))"
    unfolding st st0 by (rule same)
  show ?thesis
    using ok fields run same' by (intro conjI) (simp_all only:)
qed

theorem topic_takes_precedence_witness:
  "''Dragons'' \<noteq> [] \<and> ''A misty forest'' \<noteq> [] \<and>
   prompt_w_topic_file sample_env = Inr sample_topic_file \<and>
   instrucitons StoryGenerator_default = Some (instructions_text 200 1 ''General'' ''General'') \<and>
   prompt_template (snd (snd (set_context sample_env (PyStr ''A misty forest'') (PyStr ''Dragons'')
       ([], StoryGenerator_default)))) = Some sample_topic_file \<and>
   fst (snd (generate_response sample_env
       (snd (set_context sample_env (PyStr ''A misty forest'') (PyStr ''Dragons'')
          ([], StoryGenerator_default))))) =
     [TextGeneration (''Write a story about Dragons.\<newline>'' @
        instructions_text 200 1 ''General'' ''General'')]"
proof -
  have f: "prompt_w_topic_file sample_env = Inr sample_topic_file"
    by (simp add: sample_env_def)
  have i: "instrucitons StoryGenerator_default = Some (instructions_text 200 1 ''General'' ''General'')"
    by (simp add: default_fields)
  have p: "PromptTemplate_new sample_topic_file [''TOPIC'', ''instructions_placeholder'']
       [(''format_instructions'', PyStr (get_format_instructions sample_env))] =
     Inr (installed_prompt sample_topic_file [''TOPIC'', ''instructions_placeholder'']
            (get_format_instructions sample_env))"
    by (simp add: PromptTemplate_new_def sample_topic_file_def installed_prompt_def
        plain_TOPIC plain_instructions_placeholder template_variables_def)
  have r: "PromptTemplate_invoke
      (installed_prompt sample_topic_file [''TOPIC'', ''instructions_placeholder'']
            (get_format_instructions sample_env))
      [(''instructions_placeholder'', PyStr (instructions_text 200 1 ''General'' ''General'')),
       (''TOPIC'', PyStr ''Dragons'')] =
     Inr (''Write a story about Dragons.\<newline>'' @ instructions_text 200 1 ''General'' ''General'')"
    by (simp add: PromptTemplate_invoke_def sample_topic_file_def installed_prompt_def
        plain_TOPIC plain_instructions_placeholder)
  show ?thesis
    using topic_takes_precedence [of "''Dragons''" "''A misty forest''" sample_env
        sample_topic_file StoryGenerator_default "instructions_text 200 1 ''General'' ''General''" "[]"]
      f i
    by (simp add: p r chain_invoke.simps llm_parser_invoke_calls)
qed

end
